theory Spec2Isabelle
  imports Complex_Main "HOL-Library.Log_Nat"
begin

section \<open>Values of the host language\<close>

text \<open>
  The library is TypeScript. Its \<^verbatim>\<open>number\<close> is the IEEE 754 binary64 format. A finite
  value of the format is a rational number and is modelled by itself; the two infinities
  and NaN are values of their own. The negative zero is left out: no operation below
  tells it from zero but a division by it.
\<close>

datatype number = Num rat | PosInf | NegInf | NaN

text \<open>\<^verbatim>\<open>ToBoolean\<close> on a number: zero and NaN are falsy.\<close>

fun truthy_number :: "number \<Rightarrow> bool" where
  "truthy_number (Num q) = (q \<noteq> 0)"
| "truthy_number PosInf = True"
| "truthy_number NegInf = True"
| "truthy_number NaN = False"

text \<open>
  Rounding a rational to the nearest integer, a tie going to the even neighbour.
\<close>

definition round_half_even :: "rat \<Rightarrow> int" where
  "round_half_even x =
     (let f = \<lfloor>x\<rfloor>; r = x - of_int f
      in if r < 1 / 2 then f
         else if 1 / 2 < r then f + 1
         else if even f then f else f + 1)"

text \<open>
  The binary exponent of a positive rational \<open>x\<close>: the integer \<open>e\<close> with
  \<open>2^e \<le> x < 2^(e + 1)\<close>. With \<open>x = a / b\<close> in lowest terms, it is the difference \<open>d\<close> of the
  bit lengths of \<open>a\<close> and \<open>b\<close> or one less.
\<close>

definition floor_log2 :: "rat \<Rightarrow> int" where
  "floor_log2 x =
     (case quotient_of x of
        (a, b) \<Rightarrow> let d = bitlen a - bitlen b in if x < 2 powi d then d - 1 else d)"

text \<open>
  The result of an arithmetic operation whose exact value is \<open>x\<close>: \<open>x\<close> rounded to the
  nearest value of the format, a tie going to the value with the even significand. The
  significand has 53 bits and the exponent is at least \<open>-1022\<close>, so the values near \<open>x\<close> are
  the multiples of \<open>2^(e - 52)\<close> for the exponent \<open>e\<close> of \<open>x\<close>, or for \<open>-1022\<close> when \<open>x\<close> is
  smaller than \<open>2^(-1022)\<close>. A result of magnitude \<open>2^1024\<close> or more is an infinity.
\<close>

definition binary64 :: "rat \<Rightarrow> number" where
  "binary64 x =
     (if x = 0 then Num 0
      else let e = max (floor_log2 \<bar>x\<bar>) (- 1022);
               ulp = 2 powi (e - 52);
               m = round_half_even (\<bar>x\<bar> / ulp);
               y = of_int m * ulp
           in if 2 powi 1024 \<le> y then (if 0 < x then PosInf else NegInf)
              else Num (if 0 < x then y else - y))"

text \<open>The operator \<^verbatim>\<open>/\<close>: the exact quotient, rounded.\<close>

fun js_divide :: "number \<Rightarrow> number \<Rightarrow> number" where
  "js_divide NaN _ = NaN"
| "js_divide _ NaN = NaN"
| "js_divide (Num a) (Num b) =
     (if b \<noteq> 0 then binary64 (a / b)
      else if 0 < a then PosInf
      else if a < 0 then NegInf
      else NaN)"
| "js_divide (Num a) PosInf = Num 0"
| "js_divide (Num a) NegInf = Num 0"
| "js_divide PosInf (Num b) = (if 0 \<le> b then PosInf else NegInf)"
| "js_divide NegInf (Num b) = (if 0 \<le> b then NegInf else PosInf)"
| "js_divide PosInf PosInf = NaN"
| "js_divide PosInf NegInf = NaN"
| "js_divide NegInf PosInf = NaN"
| "js_divide NegInf NegInf = NaN"

text \<open>\<^verbatim>\<open>Math.ceil\<close>. The ceiling of a value of the format is a value of the format.\<close>

fun Math_ceil :: "number \<Rightarrow> number" where
  "Math_ceil (Num q) = Num (of_int \<lceil>q\<rceil>)"
| "Math_ceil PosInf = PosInf"
| "Math_ceil NegInf = NegInf"
| "Math_ceil NaN = NaN"

text \<open>The operator \<^verbatim>\<open><\<close> on numbers; a comparison with NaN is false.\<close>

fun js_less :: "number \<Rightarrow> number \<Rightarrow> bool" where
  "js_less NaN _ = False"
| "js_less _ NaN = False"
| "js_less (Num a) (Num b) = (a < b)"
| "js_less (Num a) PosInf = True"
| "js_less (Num a) NegInf = False"
| "js_less PosInf _ = False"
| "js_less NegInf (Num b) = True"
| "js_less NegInf PosInf = True"
| "js_less NegInf NegInf = False"

text \<open>The operator \<^verbatim>\<open>>\<close>: \<^verbatim>\<open>a > b\<close> is \<^verbatim>\<open>b < a\<close>.\<close>

definition js_greater :: "number \<Rightarrow> number \<Rightarrow> bool" where
  "js_greater a b = js_less b a"

text \<open>
  \<^verbatim>\<open>ToBoolean\<close> on a value of type \<^verbatim>\<open>string | null | undefined\<close>: \<open>None\<close> stands for
  \<^verbatim>\<open>null\<close> and \<^verbatim>\<open>undefined\<close>, and the empty string is falsy.
\<close>

fun truthy_string :: "string option \<Rightarrow> bool" where
  "truthy_string None = False"
| "truthy_string (Some s) = (s \<noteq> [])"

text \<open>Values of type \<^verbatim>\<open>unknown\<close>, as far as the library stores them.\<close>

datatype jsvalue =
    JUndefined
  | JNull
  | JBool bool
  | JNumber number
  | JString string
  | JArray "jsvalue list"
  | JObject "(string \<times> jsvalue) list"

section \<open>Types (types.ts)\<close>

text \<open>\<^verbatim>\<open>ResponseMeta\<close> and \<^verbatim>\<open>Record<string, unknown>\<close>: objects keyed by strings.\<close>

type_synonym ResponseMeta = "string \<rightharpoonup> jsvalue"

record BaseResponse =
  success :: bool
  statusCode :: number
  message :: string
  meta :: ResponseMeta

record ValidationErrorItem =
  field :: string
  message :: string
  rest :: "(string \<times> jsvalue) list"

datatype errors_value =
    ErrorItems "ValidationErrorItem list"
  | ErrorRecord "(string \<times> jsvalue) list"
  | ErrorArray "jsvalue list"

text \<open>An optional field (\<^verbatim>\<open>errors?\<close>, \<^verbatim>\<open>code?\<close>, \<^verbatim>\<open>stack?\<close>) is \<open>None\<close> when the object has no such key.\<close>

record ErrorResponse = BaseResponse +
  errors :: "errors_value option"
  code :: "string option"
  stack :: "string option"

record ValidationErrorResponse = BaseResponse +
  errors :: "ValidationErrorItem list"

record PaginationInput =
  page :: number
  limit :: number
  total :: number

record PaginationOutput = PaginationInput +
  totalPages :: number
  hasNextPage :: bool
  hasPrevPage :: bool

record PaginatedResponse = BaseResponse +
  data :: "jsvalue list"
  pagination :: PaginationOutput

text \<open>
  \<^verbatim>\<open>ApiRequest\<close>. An entry of \<^verbatim>\<open>headers\<close> is a string or an array of strings; a key that is
  missing or bound to \<^verbatim>\<open>undefined\<close> is \<open>None\<close>.
\<close>

datatype header_value = HeaderString string | HeaderArray "string list"

record ApiRequest =
  requestId :: "string option"
  headers :: "string \<rightharpoonup> header_value"

text \<open>
  \<^verbatim>\<open>ApiResponse\<close> is an interface with two chainable methods and no readable state. The
  sink is modelled by the sequence of calls it has received, oldest first; \<^verbatim>\<open>status\<close> and
  \<^verbatim>\<open>json\<close> append to it and return it. The parameter \<open>'b\<close> is the type of the bodies that
  \<^verbatim>\<open>json(body: unknown)\<close> is given.
\<close>

datatype 'b sink_call = Status number | Json 'b

type_synonym 'b ApiResponse = "'b sink_call list"

definition status :: "number \<Rightarrow> 'b ApiResponse \<Rightarrow> 'b ApiResponse" where
  "status c res = res @ [Status c]"

definition json :: "'b \<Rightarrow> 'b ApiResponse \<Rightarrow> 'b ApiResponse" where
  "json b res = res @ [Json b]"

text \<open>
  What the mock sink of the tests (tests/mocks.ts) holds after a sequence of calls: its
  \<^verbatim>\<open>status\<close> stores the code and its \<^verbatim>\<open>json\<close> stores the body, each overwriting the value
  stored before. \<open>sent_status\<close> and \<open>sent_body\<close> are the two stored values, \<open>None\<close> when the
  method was never called.
\<close>

fun sent_status :: "'b ApiResponse \<Rightarrow> number option" where
  "sent_status [] = None"
| "sent_status (Status c # cs) = (case sent_status cs of None \<Rightarrow> Some c | Some c' \<Rightarrow> Some c')"
| "sent_status (Json b # cs) = sent_status cs"

fun sent_body :: "'b ApiResponse \<Rightarrow> 'b option" where
  "sent_body [] = None"
| "sent_body (Status c # cs) = sent_body cs"
| "sent_body (Json b # cs) = (case sent_body cs of None \<Rightarrow> Some b | Some b' \<Rightarrow> Some b')"

text \<open>
  The tests read \<^verbatim>\<open>body.meta.requestId\<close> and the like: the entry of the stored body's
  \<^verbatim>\<open>meta\<close> under a key, \<open>None\<close> when the key is missing (or no body was stored).
\<close>

definition sent_meta :: "('a BaseResponse_scheme) ApiResponse \<Rightarrow> string \<Rightarrow> jsvalue option" where
  "sent_meta res k = (case sent_body res of None \<Rightarrow> None | Some b \<Rightarrow> BaseResponse.meta b k)"

section \<open>Metadata (meta.ts)\<close>

text \<open>
  \<^verbatim>\<open>generateMeta(additionalMeta = {})\<close>. The first argument \<open>now\<close> is the string that
  \<^verbatim>\<open>new Date().toISOString()\<close> returns at the call; an omitted argument is \<open>None\<close>. The object
  literal sets \<^verbatim>\<open>timestamp\<close> and then spreads \<^verbatim>\<open>additionalMeta\<close> over it, so the entries of
  the right operand of \<open>++\<close> win.
\<close>

definition generateMeta :: "string \<Rightarrow> (string \<rightharpoonup> jsvalue) option \<Rightarrow> ResponseMeta" where
  "generateMeta now additionalMeta =
     [''timestamp'' \<mapsto> JString now] ++
       (case additionalMeta of None \<Rightarrow> Map.empty | Some m \<Rightarrow> m)"

section \<open>The typed application error (appError.ts)\<close>

text \<open>
  The fields of an \<^verbatim>\<open>AppError\<close> instance: \<^verbatim>\<open>name\<close>, \<^verbatim>\<open>message\<close> and \<^verbatim>\<open>stack\<close> come from
  \<^verbatim>\<open>Error\<close>, the other three are its own.
\<close>

record AppError =
  name :: string
  message :: string
  stack :: "string option"
  statusCode :: number
  code :: string
  isOperational :: bool

text \<open>
  The constructor. \<open>trace\<close> is the string that \<^verbatim>\<open>Error.captureStackTrace\<close> stores in
  \<^verbatim>\<open>stack\<close>; an omitted argument is \<open>None\<close>.
\<close>

definition new_AppError :: "string \<Rightarrow> string \<Rightarrow> number option \<Rightarrow> string option \<Rightarrow> AppError" where
  "new_AppError trace msg statusCode_arg code_arg =
     \<lparr> name = ''AppError'',
       message = msg,
       stack = Some trace,
       statusCode = (case statusCode_arg of None \<Rightarrow> Num 500 | Some s \<Rightarrow> s),
       code = (case code_arg of None \<Rightarrow> ''INTERNAL_ERROR'' | Some c \<Rightarrow> c),
       isOperational = True \<rparr>"

text \<open>
  A failure that is not an \<^verbatim>\<open>AppError\<close>. The handler reads three properties of it, each of
  which the object may lack: \<^verbatim>\<open>message\<close> and \<^verbatim>\<open>stack\<close> of \<^verbatim>\<open>Error\<close>, and a
  \<^verbatim>\<open>statusCode\<close> read through the cast \<^verbatim>\<open>(err as AppError).statusCode\<close>.
\<close>

record PlainError =
  message :: "string option"
  stack :: "string option"
  statusCode :: "number option"

text \<open>The argument \<^verbatim>\<open>err\<close> of the handler, split by the test \<^verbatim>\<open>err instanceof AppError\<close>.\<close>

datatype failure = InstanceOfAppError AppError | NotAppError PlainError

section \<open>Response builders\<close>

text \<open>\<^verbatim>\<open>validationError(res, errors)\<close> (validation.ts).\<close>

definition validationError ::
  "string \<Rightarrow> ValidationErrorResponse ApiResponse \<Rightarrow> ValidationErrorItem list \<Rightarrow>
     ValidationErrorResponse ApiResponse" where
  "validationError now res errs =
     (let response =
            \<lparr> success = False,
              statusCode = Num 422,
              message = ''Validation failed'',
              meta = generateMeta now None,
              errors = errs \<rparr>
      in json response (status (Num 422) res))"

text \<open>\<^verbatim>\<open>paginated(res, data, pagination, message = 'Success')\<close> (paginate.ts).\<close>

definition paginated ::
  "string \<Rightarrow> PaginatedResponse ApiResponse \<Rightarrow> jsvalue list \<Rightarrow> PaginationInput \<Rightarrow> string option \<Rightarrow>
     PaginatedResponse ApiResponse" where
  "paginated now res dat pagination_arg message_arg =
     (let msg = (case message_arg of None \<Rightarrow> ''Success'' | Some m \<Rightarrow> m);
          page = PaginationInput.page pagination_arg;
          limit = PaginationInput.limit pagination_arg;
          total = PaginationInput.total pagination_arg;
          totalPages = Math_ceil (js_divide total limit);
          paginationOutput =
            \<lparr> page = page,
              limit = limit,
              total = total,
              totalPages = totalPages,
              hasNextPage = js_less page totalPages,
              hasPrevPage = js_greater page (Num 1) \<rparr>;
          response =
            \<lparr> success = True,
              statusCode = Num 200,
              message = msg,
              meta = generateMeta now None,
              data = dat,
              pagination = paginationOutput \<rparr>
      in json response (status (Num 200) res))"

text \<open>\<^verbatim>\<open>error(res, message, statusCode, errors, meta)\<close> (error.ts), with its four defaults.\<close>

definition error ::
  "string \<Rightarrow> ErrorResponse ApiResponse \<Rightarrow> string option \<Rightarrow> number option \<Rightarrow>
     errors_value option \<Rightarrow> (string \<rightharpoonup> jsvalue) option \<Rightarrow> ErrorResponse ApiResponse" where
  "error now res message_arg statusCode_arg errors_arg meta_arg =
     (let msg = (case message_arg of None \<Rightarrow> ''An error occurred'' | Some m \<Rightarrow> m);
          sc = (case statusCode_arg of None \<Rightarrow> Num 500 | Some s \<Rightarrow> s);
          m = (case meta_arg of None \<Rightarrow> Map.empty | Some x \<Rightarrow> x);
          response =
            \<lparr> BaseResponse.success = False,
              BaseResponse.statusCode = sc,
              BaseResponse.message = msg,
              BaseResponse.meta = generateMeta now (Some m),
              ErrorResponse.errors = None,
              ErrorResponse.code = None,
              ErrorResponse.stack = None \<rparr>;
          response' = (case errors_arg of
                         None \<Rightarrow> response
                       | Some e \<Rightarrow> response\<lparr> ErrorResponse.errors := Some e \<rparr>)
      in json response' (status sc res))"

section \<open>The global error handler (error.ts)\<close>

text \<open>
  The constants that the closure returned by \<^verbatim>\<open>globalErrorHandler()\<close> binds are given one
  definition each, in the order of the source.

  \<^verbatim>\<open>requestId\<close>: \<^verbatim>\<open>req.requestId || (typeof h === 'string' ? h : null)\<close> with
  \<^verbatim>\<open>h = req.headers['x-request-id']\<close>. The operator \<^verbatim>\<open>||\<close> yields its left operand when that is
  truthy and its right operand otherwise.
\<close>

definition handler_requestId :: "ApiRequest \<Rightarrow> string option" where
  "handler_requestId req =
     (if truthy_string (requestId req) then requestId req
      else (case headers req ''x-request-id'' of
              Some (HeaderString h) \<Rightarrow> Some h
            | Some (HeaderArray _) \<Rightarrow> None
            | None \<Rightarrow> None))"

text \<open>\<^verbatim>\<open>meta\<close>: \<^verbatim>\<open>requestId ? { requestId } : {}\<close>.\<close>

definition handler_meta :: "ApiRequest \<Rightarrow> (string \<rightharpoonup> jsvalue)" where
  "handler_meta req =
     (case handler_requestId req of
        Some r \<Rightarrow> if truthy_string (Some r) then [''requestId'' \<mapsto> JString r] else Map.empty
      | None \<Rightarrow> Map.empty)"

text \<open>
  \<^verbatim>\<open>isProduction\<close>: \<^verbatim>\<open>process.env.NODE_ENV === 'production'\<close>. The environment variable is an
  argument; \<open>None\<close> is an unset variable.
\<close>

definition handler_isProduction :: "string option \<Rightarrow> bool" where
  "handler_isProduction NODE_ENV = (NODE_ENV = Some ''production'')"

text \<open>\<^verbatim>\<open>statusCode\<close>: \<^verbatim>\<open>(err as AppError).statusCode || 500\<close>.\<close>

definition handler_statusCode :: "PlainError \<Rightarrow> number" where
  "handler_statusCode err =
     (case PlainError.statusCode err of
        Some s \<Rightarrow> if truthy_number s then s else Num 500
      | None \<Rightarrow> Num 500)"

text \<open>
  \<^verbatim>\<open>message\<close>: \<^verbatim>\<open>isProduction && statusCode === 500 ? 'Internal server error'
  : err.message || 'An unexpected error occurred'\<close>.
\<close>

definition handler_message :: "string option \<Rightarrow> PlainError \<Rightarrow> string" where
  "handler_message NODE_ENV err =
     (if handler_isProduction NODE_ENV \<and> handler_statusCode err = Num 500
      then ''Internal server error''
      else (case PlainError.message err of
              Some m \<Rightarrow> if truthy_string (Some m) then m else ''An unexpected error occurred''
            | None \<Rightarrow> ''An unexpected error occurred''))"

text \<open>
  The handler. Its arguments are the environment variable, the clock reading, \<^verbatim>\<open>err\<close>,
  \<^verbatim>\<open>req\<close> and \<^verbatim>\<open>res\<close>; the fourth parameter \<^verbatim>\<open>_next\<close> of the source is never used and has no
  counterpart here.
\<close>

definition globalErrorHandler ::
  "string option \<Rightarrow> string \<Rightarrow> failure \<Rightarrow> ApiRequest \<Rightarrow> ErrorResponse ApiResponse \<Rightarrow>
     ErrorResponse ApiResponse" where
  "globalErrorHandler NODE_ENV now err req res =
     (case err of
        InstanceOfAppError e \<Rightarrow>
          (let response =
                 \<lparr> BaseResponse.success = False,
                   BaseResponse.statusCode = AppError.statusCode e,
                   BaseResponse.message = AppError.message e,
                   BaseResponse.meta = generateMeta now (Some (handler_meta req)),
                   ErrorResponse.errors = None,
                   ErrorResponse.code = Some (AppError.code e),
                   ErrorResponse.stack = None \<rparr>
           in json response (status (AppError.statusCode e) res))
      | NotAppError e \<Rightarrow>
          (let response =
                 \<lparr> BaseResponse.success = False,
                   BaseResponse.statusCode = handler_statusCode e,
                   BaseResponse.message = handler_message NODE_ENV e,
                   BaseResponse.meta = generateMeta now (Some (handler_meta req)),
                   ErrorResponse.errors = None,
                   ErrorResponse.code = Some ''INTERNAL_ERROR'',
                   ErrorResponse.stack = None \<rparr>;
               response' =
                 (if \<not> handler_isProduction NODE_ENV \<and> truthy_string (PlainError.stack e)
                  then response\<lparr> ErrorResponse.stack := PlainError.stack e \<rparr>
                  else response)
           in json response' (status (handler_statusCode e) res)))"

section \<open>What the builders and the handler send\<close>

text \<open>The mock sink holds the status and the body of a final pair of calls.\<close>

lemma sent_status_append:
  "sent_status (res @ [Status c, Json b]) = Some c"
  by (induction res rule: sent_status.induct) simp_all

lemma sent_body_append:
  "sent_body (res @ [Status c, Json b]) = Some b"
  by (induction res rule: sent_body.induct) simp_all

text \<open>Each operation appends one \<^verbatim>\<open>status\<close> call and then one \<^verbatim>\<open>json\<close> call to the sink.\<close>

lemma handler_appError_sends:
  "globalErrorHandler NODE_ENV now (InstanceOfAppError e) req res =
     res @ [Status (AppError.statusCode e),
            Json \<lparr> BaseResponse.success = False,
                   BaseResponse.statusCode = AppError.statusCode e,
                   BaseResponse.message = AppError.message e,
                   BaseResponse.meta = generateMeta now (Some (handler_meta req)),
                   ErrorResponse.errors = None,
                   ErrorResponse.code = Some (AppError.code e),
                   ErrorResponse.stack = None \<rparr>]"
  by (simp add: globalErrorHandler_def json_def status_def)

lemma handler_plain_sends:
  "globalErrorHandler NODE_ENV now (NotAppError e) req res =
     res @ [Status (handler_statusCode e),
            Json \<lparr> BaseResponse.success = False,
                   BaseResponse.statusCode = handler_statusCode e,
                   BaseResponse.message = handler_message NODE_ENV e,
                   BaseResponse.meta = generateMeta now (Some (handler_meta req)),
                   ErrorResponse.errors = None,
                   ErrorResponse.code = Some ''INTERNAL_ERROR'',
                   ErrorResponse.stack =
                     (if \<not> handler_isProduction NODE_ENV \<and> truthy_string (PlainError.stack e)
                      then PlainError.stack e else None) \<rparr>]"
  by (simp add: globalErrorHandler_def json_def status_def Let_def)

lemma validationError_sends:
  "validationError now res errs =
     res @ [Status (Num 422),
            Json \<lparr> success = False, statusCode = Num 422, message = ''Validation failed'',
                   meta = generateMeta now None, errors = errs \<rparr>]"
  by (simp add: validationError_def json_def status_def)

lemma paginated_sends:
  "paginated now res dat p msg =
     res @ [Status (Num 200),
            Json \<lparr> success = True,
                   statusCode = Num 200,
                   message = (case msg of None \<Rightarrow> ''Success'' | Some m \<Rightarrow> m),
                   meta = generateMeta now None,
                   data = dat,
                   pagination =
                     \<lparr> page = page p, limit = limit p, total = total p,
                       totalPages = Math_ceil (js_divide (total p) (limit p)),
                       hasNextPage = js_less (page p) (Math_ceil (js_divide (total p) (limit p))),
                       hasPrevPage = js_greater (page p) (Num 1) \<rparr> \<rparr>]"
  by (simp add: paginated_def json_def status_def Let_def)

text \<open>
  Both branches of the handler build \<^verbatim>\<open>meta\<close> the same way, from the request alone.
\<close>

lemma handler_sends_meta:
  "\<exists>b sc. globalErrorHandler NODE_ENV now err req res = res @ [Status sc, Json b]
      \<and> BaseResponse.meta b = generateMeta now (Some (handler_meta req))"
  by (cases err) (simp_all add: handler_appError_sends handler_plain_sends)

lemma generateMeta_requestId:
  "generateMeta now (Some m) ''requestId'' = m ''requestId''"
  by (simp add: generateMeta_def map_add_def split: option.splits)

lemma handler_meta_requestId:
  "handler_meta req ''requestId'' =
     (case handler_requestId req of
        None \<Rightarrow> None
      | Some r \<Rightarrow> if r \<noteq> [] then Some (JString r) else None)"
  by (simp add: handler_meta_def split: option.splits)

lemma sent_meta_append:
  "sent_meta (res @ [Status c, Json b]) k = BaseResponse.meta b k"
  by (simp add: sent_meta_def sent_body_append)

text \<open>
  The status that the handler uses for a failure that is not an \<^verbatim>\<open>AppError\<close> is 500 in
  exactly three cases: the failure has no \<^verbatim>\<open>statusCode\<close>, it has the value 500, or it has
  a falsy value (zero or NaN).
\<close>

lemma handler_statusCode_500_iff:
  "handler_statusCode e = Num 500 \<longleftrightarrow>
     (case PlainError.statusCode e of None \<Rightarrow> True | Some s \<Rightarrow> s = Num 500 \<or> \<not> truthy_number s)"
  by (auto simp: handler_statusCode_def split: option.splits)

text \<open>
  Rounding to the nearest integer does not pass an integer: it stays at or below an
  integer above its argument, and goes above an integer that its argument exceeds by more
  than a half.
\<close>

lemma round_half_even_le:
  assumes "x \<le> of_int N"
  shows "round_half_even x \<le> N"
proof -
  define f where "f = \<lfloor>x\<rfloor>"
  have fx: "of_int f \<le> x" "x < of_int f + 1" unfolding f_def by linarith+
  have fN: "f \<le> N" using assms fx(1) by (metis of_int_le_iff order_trans)
  show ?thesis
  proof (cases "f = N")
    case True
    then have "x = of_int f" using assms fx(1) by simp
    then show ?thesis using True by (simp add: round_half_even_def f_def [symmetric])
  next
    case False
    then have "f + 1 \<le> N" using fN by simp
    then show ?thesis
      by (simp add: round_half_even_def Let_def f_def [symmetric])
  qed
qed

lemma round_half_even_ge:
  assumes "of_int N + 1 / 2 < x"
  shows "N + 1 \<le> round_half_even x"
proof -
  define f where "f = \<lfloor>x\<rfloor>"
  have fx: "of_int f \<le> x" "x < of_int f + 1" unfolding f_def by linarith+
  have "rat_of_int N < of_int f + 1" using assms fx(2) by linarith
  then have "N < f + 1" by (metis of_int_less_iff of_int_add of_int_1)
  then have fN: "N \<le> f" by simp
  show ?thesis
  proof (cases "f = N")
    case True
    then have "1 / 2 < x - of_int f" using assms by simp
    then show ?thesis using True by (simp add: round_half_even_def Let_def f_def [symmetric])
  next
    case False
    then have "N + 1 \<le> f" using fN by simp
    then show ?thesis
      by (simp add: round_half_even_def Let_def f_def [symmetric])
  qed
qed

text \<open>
  The binary exponent \<open>e\<close> of a positive rational \<open>x\<close> is the one with \<open>2^e \<le> x < 2^(e + 1)\<close>.
\<close>

lemma floor_log2_le:
  assumes "0 < x"
  shows "2 powi (floor_log2 x) \<le> x"
proof -
  obtain a b where q: "quotient_of x = (a, b)" by (cases "quotient_of x")
  have b0: "0 < b" using q by (rule quotient_of_denom_pos)
  have x: "x = of_int a / of_int b" using q by (rule quotient_of_div)
  have a0: "0 < a" using assms b0 unfolding x by (simp add: zero_less_divide_iff)
  define d where "d = bitlen a - bitlen b"
  show ?thesis
  proof (cases "x < 2 powi d")
    case False
    then show ?thesis by (simp add: floor_log2_def q d_def [symmetric])
  next
    case True
    have la: "1 \<le> bitlen a" and lb: "1 \<le> bitlen b"
      using a0 b0 by (simp_all add: bitlen_alt_def)
    have ba: "2 ^ nat (bitlen a - 1) \<le> a" using bitlen_bounds [OF a0] by simp
    have bb: "b < 2 ^ nat (bitlen b)" using bitlen_bounds [OF b0] by simp
    have ra: "(2::rat) ^ nat (bitlen a - 1) \<le> of_int a"
      using ba by (metis of_int_le_iff of_int_numeral of_int_power)
    have rb: "rat_of_int b \<le> 2 ^ nat (bitlen b)"
      using bb by (metis less_imp_le of_int_le_iff of_int_numeral of_int_power)
    have "(2::rat) powi (d - 1) = 2 powi (bitlen a - 1) / 2 powi (bitlen b)"
      unfolding d_def by (simp add: power_int_diff)
    also have "\<dots> = 2 ^ nat (bitlen a - 1) / 2 ^ nat (bitlen b)"
      using la lb by (simp add: power_int_def)
    also have "\<dots> \<le> of_int a / of_int b"
      using ra rb a0 b0 by (intro frac_le) simp_all
    finally have "(2::rat) powi (d - 1) \<le> x" by (simp add: x)
    then show ?thesis using True by (simp add: floor_log2_def q d_def [symmetric])
  qed
qed

lemma floor_log2_gt:
  assumes "0 < x"
  shows "x < 2 powi (floor_log2 x + 1)"
proof -
  obtain a b where q: "quotient_of x = (a, b)" by (cases "quotient_of x")
  have b0: "0 < b" using q by (rule quotient_of_denom_pos)
  have x: "x = of_int a / of_int b" using q by (rule quotient_of_div)
  have a0: "0 < a" using assms b0 unfolding x by (simp add: zero_less_divide_iff)
  define d where "d = bitlen a - bitlen b"
  show ?thesis
  proof (cases "x < 2 powi d")
    case True
    then show ?thesis by (simp add: floor_log2_def q d_def [symmetric])
  next
    case False
    have la: "1 \<le> bitlen a" and lb: "1 \<le> bitlen b"
      using a0 b0 by (simp_all add: bitlen_alt_def)
    have ba: "a < 2 ^ nat (bitlen a)" using bitlen_bounds [OF a0] by simp
    have bb: "2 ^ nat (bitlen b - 1) \<le> b" using bitlen_bounds [OF b0] by simp
    have ra: "rat_of_int a < 2 ^ nat (bitlen a)"
      using ba by (metis of_int_less_iff of_int_numeral of_int_power)
    have rb: "(2::rat) ^ nat (bitlen b - 1) \<le> of_int b"
      using bb by (metis of_int_le_iff of_int_numeral of_int_power)
    have "of_int a / of_int b < (2::rat) ^ nat (bitlen a) / 2 ^ nat (bitlen b - 1)"
      using ra rb a0 b0 by (intro frac_less) simp_all
    also have "\<dots> = 2 powi (bitlen a) / 2 powi (bitlen b - 1)"
      using la lb by (simp add: power_int_def)
    also have "\<dots> = 2 powi (d + 1)"
      unfolding d_def by (simp add: power_int_diff [symmetric] algebra_simps)
    finally have "x < 2 powi (d + 1)" by (simp add: x)
    then show ?thesis using False by (simp add: floor_log2_def q d_def [symmetric])
  qed
qed

text \<open>
  The quotient of a natural number \<open>t\<close> below \<open>2^53\<close> by a positive natural number \<open>l\<close> below
  \<open>2^1024\<close> rounds to a value with the ceiling of the exact quotient. With \<open>c\<close> that
  ceiling and \<open>2^(-k)\<close> the spacing of the format at the quotient, \<open>c\<close> is a multiple of the
  spacing, so the rounded value does not pass it; and the quotient exceeds \<open>c - 1\<close> by at
  least \<open>1 / l\<close>, which is more than half the spacing, so the rounded value is above
  \<open>c - 1\<close>.
\<close>

lemma binary64_ceiling:
  fixes t l :: nat
  assumes l0: "0 < l" and lmax: "l < 2 ^ 1024" and tmax: "t < 2 ^ 53"
  shows "\<exists>y. binary64 (rat_of_nat t / rat_of_nat l) = Num y
            \<and> \<lceil>y\<rceil> = \<lceil>rat_of_nat t / rat_of_nat l\<rceil>"
proof (cases "t = 0")
  case True
  then show ?thesis by (simp add: binary64_def)
next
  case False
  define q where "q = rat_of_nat t / rat_of_nat l"
  define c where "c = \<lceil>q\<rceil>"
  define e where "e = max (floor_log2 q) (- 1022)"
  define k where "k = nat (52 - e)"
  have lpos: "0 < rat_of_nat l" using l0 by simp
  have qpos: "0 < q" using False l0 by (simp add: q_def)
  have qt: "q \<le> rat_of_nat t"
  proof -
    have "1 \<le> rat_of_nat l" using l0 by simp
    then have "rat_of_nat t / rat_of_nat l \<le> rat_of_nat t / 1"
      by (intro divide_left_mono) simp_all
    then show ?thesis by (simp add: q_def)
  qed
  have t53: "rat_of_nat t < 2 ^ 53"
    using tmax by (metis of_nat_less_iff of_nat_numeral of_nat_power)
  have e52: "e \<le> 52"
  proof (rule ccontr)
    assume "\<not> e \<le> 52"
    then have fl: "53 \<le> floor_log2 q" by (simp add: e_def)
    have "(2::rat) powi 53 \<le> 2 powi (floor_log2 q)"
      using fl by (intro power_int_increasing) simp_all
    also have "\<dots> \<le> q" using qpos by (rule floor_log2_le)
    finally have "(2::rat) ^ 53 \<le> q" by (simp add: power_int_def)
    then show False using qt t53 by linarith
  qed
  have ek: "e = 52 - int k" using e52 by (simp add: k_def)
  have ulp: "(2::rat) powi (e - 52) = 1 / 2 ^ k"
    by (simp add: ek power_int_def field_simps)
  have lk: "rat_of_nat l < 2 * 2 ^ k"
  proof (cases "- 1022 \<le> floor_log2 q")
    case True
    then have "e = floor_log2 q" by (simp add: e_def)
    then have "(2::rat) powi e \<le> q" using floor_log2_le [OF qpos] by simp
    moreover have "(2::rat) powi e = 2 ^ 52 / 2 ^ k"
      by (simp add: ek power_int_diff)
    ultimately have "(2::rat) ^ 52 / 2 ^ k \<le> rat_of_nat t / rat_of_nat l"
      by (simp add: q_def)
    then have "(2::rat) ^ 52 * rat_of_nat l \<le> rat_of_nat t * 2 ^ k"
      using lpos by (simp add: field_simps)
    also have "\<dots> < 2 ^ 53 * 2 ^ k" using t53 by simp
    finally show ?thesis by simp
  next
    case False
    then have "e = - 1022" by (simp add: e_def)
    then have k1074: "k = 1074" by (simp add: k_def)
    have "rat_of_nat l < 2 ^ 1024"
      using lmax by (metis of_nat_less_iff of_nat_numeral of_nat_power)
    also have "\<dots> \<le> 2 * 2 ^ 1074" by simp
    finally show ?thesis by (simp add: k1074)
  qed
  have c1: "of_int c - 1 < q" and c2: "q \<le> of_int c"
    unfolding c_def by linarith+
  have step: "rat_of_int (c - 1) + 1 / rat_of_nat l \<le> q"
  proof -
    have "rat_of_int (c - 1) * rat_of_nat l < rat_of_nat t"
      using c1 lpos by (simp add: q_def field_simps)
    then have "rat_of_int ((c - 1) * int l) < rat_of_int (int t)" by simp
    then have "(c - 1) * int l < int t" by (simp only: of_int_less_iff)
    then have "(c - 1) * int l + 1 \<le> int t" by simp
    then have "rat_of_int ((c - 1) * int l + 1) \<le> rat_of_int (int t)"
      by (simp only: of_int_le_iff)
    then have "rat_of_int (c - 1) * rat_of_nat l + 1 \<le> rat_of_nat t" by simp
    then have "(rat_of_int (c - 1) * rat_of_nat l + 1) / rat_of_nat l \<le> rat_of_nat t / rat_of_nat l"
      using lpos by (intro divide_right_mono) simp_all
    moreover have "(rat_of_int (c - 1) * rat_of_nat l + 1) / rat_of_nat l =
        rat_of_int (c - 1) + 1 / rat_of_nat l"
      using lpos by (simp add: add_divide_distrib)
    ultimately show ?thesis by (simp add: q_def)
  qed
  define m where "m = round_half_even (q * 2 ^ k)"
  have up: "m \<le> c * 2 ^ k"
  proof -
    have "q * 2 ^ k \<le> rat_of_int (c * 2 ^ k)" using c2 by simp
    then show ?thesis unfolding m_def by (rule round_half_even_le)
  qed
  have low: "(c - 1) * 2 ^ k + 1 \<le> m"
  proof -
    have "1 / 2 < 2 ^ k / rat_of_nat l" using lk lpos by (simp add: field_simps)
    then have "rat_of_int (c - 1) * 2 ^ k + 1 / 2 < (rat_of_int (c - 1) + 1 / rat_of_nat l) * 2 ^ k"
      by (simp add: field_simps)
    also have "\<dots> \<le> q * 2 ^ k" using step by simp
    finally have "rat_of_int ((c - 1) * 2 ^ k) + 1 / 2 < q * 2 ^ k" by simp
    then show ?thesis unfolding m_def by (rule round_half_even_ge)
  qed
  define y where "y = rat_of_int m / 2 ^ k"
  have y_up: "y \<le> of_int c"
  proof -
    have "rat_of_int m \<le> rat_of_int (c * 2 ^ k)" using up by (simp only: of_int_le_iff)
    then show ?thesis by (simp add: y_def field_simps)
  qed
  have y_low: "of_int c - 1 < y"
  proof -
    have "rat_of_int ((c - 1) * 2 ^ k + 1) \<le> rat_of_int m" using low by (simp only: of_int_le_iff)
    then have "rat_of_int (c - 1) * 2 ^ k < rat_of_int m" by simp
    then show ?thesis by (simp add: y_def field_simps)
  qed
  have ceil: "\<lceil>y\<rceil> = c" using y_low y_up by (intro ceiling_unique) simp_all
  have cpos: "0 < c" using qpos c_def by simp
  have ypos: "0 < y"
  proof -
    have "1 \<le> c" using cpos by simp
    then have "rat_of_int 1 \<le> rat_of_int c" by (simp only: of_int_le_iff)
    then show ?thesis using y_low by simp
  qed
  have ct: "c \<le> int t" unfolding c_def using qt by (simp add: ceiling_le_iff)
  have ysmall: "y < 2 powi 1024"
  proof -
    have "y \<le> rat_of_int (int t)" using y_up ct by (metis of_int_le_iff order_trans)
    also have "\<dots> < 2 ^ 53" using t53 by simp
    also have "\<dots> \<le> 2 ^ 1024" by simp
    finally show ?thesis by (simp add: power_int_def)
  qed
  have "binary64 q = Num y"
    using qpos ypos ysmall
    by (simp add: binary64_def Let_def e_def [symmetric] ulp m_def [symmetric]
        y_def [symmetric] abs_of_pos)
  then show ?thesis using ceil by (simp add: q_def c_def)
qed

text \<open>
  For natural numbers \<open>t\<close> and \<open>l > 0\<close> the ceiling \<open>k\<close> of \<open>t / l\<close> is the number of pages of
  size \<open>l\<close> that \<open>t\<close> items fill: \<open>k\<close> pages hold them all and \<open>k - 1\<close> pages do not.
\<close>

lemma ceiling_pages:
  fixes t l :: nat
  assumes "0 < l"
  defines "k \<equiv> \<lceil>rat_of_nat t / rat_of_nat l\<rceil>"
  shows "int t \<le> k * int l" and "(k - 1) * int l < int t"
proof -
  have pos: "0 < rat_of_nat l" using assms(1) by simp
  have "rat_of_nat t / rat_of_nat l \<le> rat_of_int k"
    unfolding k_def by (rule le_of_int_ceiling)
  then have "rat_of_nat t \<le> rat_of_int k * rat_of_nat l"
    using pos by (simp add: pos_divide_le_eq)
  then have "rat_of_int (int t) \<le> rat_of_int (k * int l)" by simp
  then show "int t \<le> k * int l" by (simp only: of_int_le_iff)
  have "rat_of_int k - 1 < rat_of_nat t / rat_of_nat l"
    unfolding k_def using ceiling_correct [of "rat_of_nat t / rat_of_nat l"] by simp
  then have "(rat_of_int k - 1) * rat_of_nat l < rat_of_nat t"
    using pos by (simp add: pos_less_divide_eq)
  then have "rat_of_int ((k - 1) * int l) < rat_of_int (int t)" by simp
  then show "(k - 1) * int l < int t" by (simp only: of_int_less_iff)
qed

section \<open>Operational failures\<close>

text \<open>
  Claim C1. For every \<^verbatim>\<open>AppError\<close> the handler sets the sink's status to the error's
  \<^verbatim>\<open>statusCode\<close> and then sends one envelope whose \<^verbatim>\<open>statusCode\<close>, \<^verbatim>\<open>code\<close> and \<^verbatim>\<open>message\<close>
  are those of the error. The value of \<^verbatim>\<open>NODE_ENV\<close> has no influence on what is sent.
\<close>

theorem appError_normalized:
  "\<exists>b. globalErrorHandler NODE_ENV now (InstanceOfAppError e) req res =
          res @ [Status (AppError.statusCode e), Json b]
      \<and> BaseResponse.statusCode b = AppError.statusCode e
      \<and> ErrorResponse.code b = Some (AppError.code e)
      \<and> BaseResponse.message b = AppError.message e
      \<and> globalErrorHandler NODE_ENV' now (InstanceOfAppError e) req res =
          globalErrorHandler NODE_ENV now (InstanceOfAppError e) req res"
  by (simp add: handler_appError_sends)

text \<open>The error of the fourth scenario of the specification, handled in production.\<close>

theorem appError_normalized_witness:
  "\<exists>b. globalErrorHandler (Some ''production'') ''2026-01-01T00:00:00.000Z''
          (InstanceOfAppError
             (new_AppError ''trace'' ''User not found'' (Some (Num 404)) (Some ''USER_NOT_FOUND'')))
          \<lparr> requestId = None, headers = Map.empty \<rparr> [] =
          [Status (Num 404), Json b]
      \<and> BaseResponse.statusCode b = Num 404
      \<and> ErrorResponse.code b = Some ''USER_NOT_FOUND''
      \<and> BaseResponse.message b = ''User not found''"
  using appError_normalized [of "Some ''production''" "''2026-01-01T00:00:00.000Z''"
      "new_AppError ''trace'' ''User not found'' (Some (Num 404)) (Some ''USER_NOT_FOUND'')"
      "\<lparr> requestId = None, headers = Map.empty \<rparr>" "[]" "Some ''production''"]
  by (simp add: new_AppError_def)

text \<open>
  Claim C10. The envelope that the handler sends for an \<^verbatim>\<open>AppError\<close> has no \<^verbatim>\<open>stack\<close> field,
  whatever \<^verbatim>\<open>NODE_ENV\<close> is, although the constructor stores the captured trace in the
  error's \<^verbatim>\<open>stack\<close>.
\<close>

theorem appError_envelope_has_no_stack:
  "(\<exists>b. globalErrorHandler NODE_ENV now (InstanceOfAppError e) req res =
          res @ [Status (AppError.statusCode e), Json b]
      \<and> ErrorResponse.stack b = None)
   \<and> AppError.stack (new_AppError trace msg sc c) = Some trace"
  by (simp add: handler_appError_sends new_AppError_def)

theorem appError_envelope_has_no_stack_witness:
  "(\<exists>b. globalErrorHandler (Some ''development'') ''2026-01-01T00:00:00.000Z''
          (InstanceOfAppError
             (new_AppError ''AppError: Forbidden at handler'' ''Forbidden'' (Some (Num 403)) None))
          \<lparr> requestId = None, headers = Map.empty \<rparr> [] = [Status (Num 403), Json b]
      \<and> ErrorResponse.stack b = None)
   \<and> AppError.stack
        (new_AppError ''AppError: Forbidden at handler'' ''Forbidden'' (Some (Num 403)) None) =
      Some ''AppError: Forbidden at handler''"
  using appError_envelope_has_no_stack [of "Some ''development''" "''2026-01-01T00:00:00.000Z''"
      "new_AppError ''AppError: Forbidden at handler'' ''Forbidden'' (Some (Num 403)) None"
      "\<lparr> requestId = None, headers = Map.empty \<rparr>" "[]"
      "''AppError: Forbidden at handler''" "''Forbidden''" "Some (Num 403)" None]
  by (simp add: new_AppError_def)

section \<open>Unknown failures in production\<close>

text \<open>
  Claim C2. In production, a failure that is not an \<^verbatim>\<open>AppError\<close> and whose status comes out
  as 500 is answered with status 500 and an envelope with the message
  \<^verbatim>\<open>Internal server error\<close>, the code \<^verbatim>\<open>INTERNAL_ERROR\<close>, \<^verbatim>\<open>statusCode\<close> 500 and no \<^verbatim>\<open>stack\<close>.
  Any two such failures are answered with the same calls on the sink, so neither the
  failure's message nor its stack shows in the answer. Every failure without a
  \<^verbatim>\<open>statusCode\<close> is such a failure.
\<close>

theorem unknown_production_500_redacted:
  assumes "NODE_ENV = Some ''production''" and "handler_statusCode e = Num 500"
  shows "(\<exists>b. globalErrorHandler NODE_ENV now (NotAppError e) req res =
               res @ [Status (Num 500), Json b]
           \<and> BaseResponse.message b = ''Internal server error''
           \<and> ErrorResponse.code b = Some ''INTERNAL_ERROR''
           \<and> BaseResponse.statusCode b = Num 500
           \<and> ErrorResponse.stack b = None)
       \<and> (\<forall>e'. handler_statusCode e' = Num 500 \<longrightarrow>
              globalErrorHandler NODE_ENV now (NotAppError e') req res =
              globalErrorHandler NODE_ENV now (NotAppError e) req res)
       \<and> (\<forall>e'. PlainError.statusCode e' = None \<longrightarrow> handler_statusCode e' = Num 500)"
  using assms
  by (simp add: handler_plain_sends handler_message_def handler_isProduction_def
      handler_statusCode_def)

text \<open>
  A failure with a message and a stack but no \<^verbatim>\<open>statusCode\<close>, and a second one with another
  message, no stack and the \<^verbatim>\<open>statusCode\<close> 500: the handler answers both alike.
\<close>

theorem unknown_production_500_redacted_witness:
  "Some ''production'' = Some ''production''
   \<and> handler_statusCode \<lparr> message = Some ''Sensitive details'',
         stack = Some ''Error: Sensitive details at handler'', statusCode = None \<rparr> = Num 500
   \<and> (\<exists>b. globalErrorHandler (Some ''production'') ''2026-01-01T00:00:00.000Z''
            (NotAppError \<lparr> message = Some ''Sensitive details'',
               stack = Some ''Error: Sensitive details at handler'', statusCode = None \<rparr>)
            \<lparr> requestId = None, headers = Map.empty \<rparr> [] =
            [Status (Num 500), Json b]
        \<and> BaseResponse.message b = ''Internal server error''
        \<and> ErrorResponse.code b = Some ''INTERNAL_ERROR''
        \<and> BaseResponse.statusCode b = Num 500
        \<and> ErrorResponse.stack b = None)
   \<and> globalErrorHandler (Some ''production'') ''2026-01-01T00:00:00.000Z''
        (NotAppError \<lparr> message = Some ''disk full'', stack = None, statusCode = Some (Num 500) \<rparr>)
        \<lparr> requestId = None, headers = Map.empty \<rparr> [] =
      globalErrorHandler (Some ''production'') ''2026-01-01T00:00:00.000Z''
        (NotAppError \<lparr> message = Some ''Sensitive details'',
           stack = Some ''Error: Sensitive details at handler'', statusCode = None \<rparr>)
        \<lparr> requestId = None, headers = Map.empty \<rparr> []"
proof -
  have s1: "handler_statusCode \<lparr> message = Some ''Sensitive details'',
         stack = Some ''Error: Sensitive details at handler'', statusCode = None \<rparr> = Num 500"
    by (simp add: handler_statusCode_def)
  have s2: "handler_statusCode
      \<lparr> message = Some ''disk full'', stack = None, statusCode = Some (Num 500) \<rparr> = Num 500"
    by (simp add: handler_statusCode_def)
  note inst = unknown_production_500_redacted [OF refl s1, of "''2026-01-01T00:00:00.000Z''"
      "\<lparr> requestId = None, headers = Map.empty \<rparr>" "[]"]
  from inst have a: "\<exists>b. globalErrorHandler (Some ''production'') ''2026-01-01T00:00:00.000Z''
            (NotAppError \<lparr> message = Some ''Sensitive details'',
               stack = Some ''Error: Sensitive details at handler'', statusCode = None \<rparr>)
            \<lparr> requestId = None, headers = Map.empty \<rparr> [] =
            [Status (Num 500), Json b]
        \<and> BaseResponse.message b = ''Internal server error''
        \<and> ErrorResponse.code b = Some ''INTERNAL_ERROR''
        \<and> BaseResponse.statusCode b = Num 500
        \<and> ErrorResponse.stack b = None"
    by (simp only: append_Nil)
  from inst s2 have b: "globalErrorHandler (Some ''production'') ''2026-01-01T00:00:00.000Z''
        (NotAppError \<lparr> message = Some ''disk full'', stack = None, statusCode = Some (Num 500) \<rparr>)
        \<lparr> requestId = None, headers = Map.empty \<rparr> [] =
      globalErrorHandler (Some ''production'') ''2026-01-01T00:00:00.000Z''
        (NotAppError \<lparr> message = Some ''Sensitive details'',
           stack = Some ''Error: Sensitive details at handler'', statusCode = None \<rparr>)
        \<lparr> requestId = None, headers = Map.empty \<rparr> []"
    by blast
  show ?thesis by (intro conjI refl s1 a b)
qed

text \<open>
  Claim C3, as amended. In production, a failure that is not an \<^verbatim>\<open>AppError\<close> and carries a
  truthy \<^verbatim>\<open>statusCode\<close> other than 500 is answered with that status, in the sink and in the
  envelope, and its message is not redacted: the envelope has the failure's message when
  that is a non-empty string, and \<^verbatim>\<open>An unexpected error occurred\<close> when the failure has no
  message or an empty one.
\<close>

theorem unknown_production_non500_preserved:
  assumes "NODE_ENV = Some ''production''"
    and "PlainError.statusCode e = Some s" and "truthy_number s" and "s \<noteq> Num 500"
  shows "\<exists>b. globalErrorHandler NODE_ENV now (NotAppError e) req res = res @ [Status s, Json b]
           \<and> BaseResponse.statusCode b = s
           \<and> (\<forall>m. PlainError.message e = Some m \<and> m \<noteq> [] \<longrightarrow> BaseResponse.message b = m)
           \<and> (PlainError.message e = None \<or> PlainError.message e = Some [] \<longrightarrow>
                BaseResponse.message b = ''An unexpected error occurred'')"
  using assms
  by (auto simp: handler_plain_sends handler_message_def handler_statusCode_def)

text \<open>The sixth scenario of the specification: a failure with the status 404.\<close>

theorem unknown_production_non500_preserved_witness:
  "Some ''production'' = Some ''production''
   \<and> PlainError.statusCode
       \<lparr> message = Some ''Not found'', stack = None, statusCode = Some (Num 404) \<rparr> = Some (Num 404)
   \<and> truthy_number (Num 404) \<and> Num 404 \<noteq> Num 500
   \<and> (\<exists>b. globalErrorHandler (Some ''production'') ''2026-01-01T00:00:00.000Z''
            (NotAppError \<lparr> message = Some ''Not found'', stack = None, statusCode = Some (Num 404) \<rparr>)
            \<lparr> requestId = None, headers = Map.empty \<rparr> [] = [Status (Num 404), Json b]
        \<and> BaseResponse.statusCode b = Num 404
        \<and> BaseResponse.message b = ''Not found'')"
  using unknown_production_non500_preserved [of "Some ''production''"
      "\<lparr> message = Some ''Not found'', stack = None, statusCode = Some (Num 404) \<rparr>" "Num 404"
      "''2026-01-01T00:00:00.000Z''" "\<lparr> requestId = None, headers = Map.empty \<rparr>" "[]"]
  by simp

text \<open>
  Claim C3 as stated fails on two inputs. A failure that carries the \<^verbatim>\<open>statusCode\<close> 0 carries
  an explicit status other than 500, yet the handler answers it with status 500 and the
  redacted message, since \<^verbatim>\<open>0 || 500\<close> is 500. A failure that carries the \<^verbatim>\<open>statusCode\<close> 404
  and the empty message is answered with \<^verbatim>\<open>An unexpected error occurred\<close>, which is not its
  message.
\<close>

theorem unknown_production_non500_counterexample:
  "sent_status (globalErrorHandler (Some ''production'') ''2026-01-01T00:00:00.000Z''
      (NotAppError \<lparr> message = Some ''Not found'', stack = None, statusCode = Some (Num 0) \<rparr>)
      \<lparr> requestId = None, headers = Map.empty \<rparr> []) = Some (Num 500)
   \<and> map_option BaseResponse.statusCode
       (sent_body (globalErrorHandler (Some ''production'') ''2026-01-01T00:00:00.000Z''
          (NotAppError \<lparr> message = Some ''Not found'', stack = None, statusCode = Some (Num 0) \<rparr>)
          \<lparr> requestId = None, headers = Map.empty \<rparr> [])) = Some (Num 500)
   \<and> map_option BaseResponse.message
       (sent_body (globalErrorHandler (Some ''production'') ''2026-01-01T00:00:00.000Z''
          (NotAppError \<lparr> message = Some ''Not found'', stack = None, statusCode = Some (Num 0) \<rparr>)
          \<lparr> requestId = None, headers = Map.empty \<rparr> [])) = Some ''Internal server error''
   \<and> map_option BaseResponse.message
       (sent_body (globalErrorHandler (Some ''production'') ''2026-01-01T00:00:00.000Z''
          (NotAppError \<lparr> message = Some [], stack = None, statusCode = Some (Num 404) \<rparr>)
          \<lparr> requestId = None, headers = Map.empty \<rparr> [])) = Some ''An unexpected error occurred''"
  by (simp add: handler_plain_sends handler_statusCode_def handler_message_def
      handler_isProduction_def)

section \<open>Unknown failures outside production\<close>

text \<open>
  Claim C4, as amended. When \<^verbatim>\<open>NODE_ENV\<close> is not \<^verbatim>\<open>production\<close>, the envelope for a failure
  that is not an \<^verbatim>\<open>AppError\<close> has the failure's message when that is a non-empty string and
  \<^verbatim>\<open>An unexpected error occurred\<close> when the failure has no message or an empty one; its
  code is \<^verbatim>\<open>INTERNAL_ERROR\<close>; and it has a \<^verbatim>\<open>stack\<close> field, equal to the failure's, exactly
  when the failure's stack is a non-empty string.
\<close>

theorem unknown_development_disclosed:
  assumes "NODE_ENV \<noteq> Some ''production''"
  shows "\<exists>b. globalErrorHandler NODE_ENV now (NotAppError e) req res =
              res @ [Status (handler_statusCode e), Json b]
           \<and> (\<forall>m. PlainError.message e = Some m \<and> m \<noteq> [] \<longrightarrow> BaseResponse.message b = m)
           \<and> (PlainError.message e = None \<or> PlainError.message e = Some [] \<longrightarrow>
                BaseResponse.message b = ''An unexpected error occurred'')
           \<and> ErrorResponse.code b = Some ''INTERNAL_ERROR''
           \<and> (\<forall>s. PlainError.stack e = Some s \<and> s \<noteq> [] \<longrightarrow> ErrorResponse.stack b = Some s)
           \<and> (PlainError.stack e = None \<or> PlainError.stack e = Some [] \<longrightarrow>
                ErrorResponse.stack b = None)"
  using assms
  by (auto simp: handler_plain_sends handler_message_def handler_isProduction_def)

theorem unknown_development_disclosed_witness:
  "Some ''development'' \<noteq> Some ''production''
   \<and> (\<exists>b. globalErrorHandler (Some ''development'') ''2026-01-01T00:00:00.000Z''
          (NotAppError \<lparr> message = Some ''Detailed error message'',
             stack = Some ''Error: Detailed error message at handler'', statusCode = None \<rparr>)
          \<lparr> requestId = None, headers = Map.empty \<rparr> [] = [Status (Num 500), Json b]
        \<and> BaseResponse.message b = ''Detailed error message''
        \<and> ErrorResponse.code b = Some ''INTERNAL_ERROR''
        \<and> ErrorResponse.stack b = Some ''Error: Detailed error message at handler'')"
  using unknown_development_disclosed [of "Some ''development''" "''2026-01-01T00:00:00.000Z''"
      "\<lparr> message = Some ''Detailed error message'',
         stack = Some ''Error: Detailed error message at handler'', statusCode = None \<rparr>"
      "\<lparr> requestId = None, headers = Map.empty \<rparr>" "[]"]
  by (simp add: handler_statusCode_def)

text \<open>
  Claim C4 as stated fails for a failure whose message and stack are present and empty:
  outside production the envelope's message is \<^verbatim>\<open>An unexpected error occurred\<close>, not
  the failure's own message, since \<^verbatim>\<open>'' || x\<close> is \<^verbatim>\<open>x\<close>; and the envelope has no \<^verbatim>\<open>stack\<close>
  field, since \<^verbatim>\<open>!isProduction && ''\<close> is falsy.
\<close>

theorem unknown_development_counterexample:
  "map_option BaseResponse.message
     (sent_body (globalErrorHandler (Some ''development'') ''2026-01-01T00:00:00.000Z''
        (NotAppError \<lparr> message = Some [], stack = Some [], statusCode = None \<rparr>)
        \<lparr> requestId = None, headers = Map.empty \<rparr> [])) = Some ''An unexpected error occurred''
   \<and> map_option BaseResponse.message
     (sent_body (globalErrorHandler (Some ''development'') ''2026-01-01T00:00:00.000Z''
        (NotAppError \<lparr> message = Some [], stack = Some [], statusCode = None \<rparr>)
        \<lparr> requestId = None, headers = Map.empty \<rparr> [])) \<noteq> Some []
   \<and> map_option ErrorResponse.stack
     (sent_body (globalErrorHandler (Some ''development'') ''2026-01-01T00:00:00.000Z''
        (NotAppError \<lparr> message = Some [], stack = Some [], statusCode = None \<rparr>)
        \<lparr> requestId = None, headers = Map.empty \<rparr> [])) = Some None"
  by (simp add: handler_plain_sends handler_message_def handler_isProduction_def)

section \<open>The correlation identifier\<close>

text \<open>
  Claim C5, as amended. For every failure and every \<^verbatim>\<open>NODE_ENV\<close>: when the request has a
  non-empty \<^verbatim>\<open>requestId\<close> and its headers have an \<^verbatim>\<open>x-request-id\<close> entry, the envelope's meta
  has the request's \<^verbatim>\<open>requestId\<close> under the key \<^verbatim>\<open>requestId\<close>, not the header's value; when
  the request has neither, the envelope's meta has no such key.
\<close>

theorem requestId_precedence:
  "\<exists>b sc. globalErrorHandler NODE_ENV now err req res = res @ [Status sc, Json b]
      \<and> (\<forall>r h. requestId req = Some r \<and> r \<noteq> [] \<and> headers req ''x-request-id'' = Some h \<longrightarrow>
             BaseResponse.meta b ''requestId'' = Some (JString r))
      \<and> (requestId req = None \<and> headers req ''x-request-id'' = None \<longrightarrow>
             BaseResponse.meta b ''requestId'' = None)"
proof -
  obtain b sc where s: "globalErrorHandler NODE_ENV now err req res = res @ [Status sc, Json b]"
    and m: "BaseResponse.meta b = generateMeta now (Some (handler_meta req))"
    using handler_sends_meta by blast
  have f1: "BaseResponse.meta b ''requestId'' = Some (JString r)"
    if "requestId req = Some r" "r \<noteq> []" for r
    using that by (simp add: m generateMeta_requestId handler_meta_requestId handler_requestId_def)
  have f2: "BaseResponse.meta b ''requestId'' = None"
    if "requestId req = None" "headers req ''x-request-id'' = None"
    using that by (simp add: m generateMeta_requestId handler_meta_requestId handler_requestId_def)
  show ?thesis
    by (rule exI [of _ b], rule exI [of _ sc]) (simp add: s f1 f2)
qed

text \<open>
  The request of the test \<^verbatim>\<open>should prefer requestId from request over header\<close>, and a
  request with neither identifier.
\<close>

theorem requestId_precedence_witness:
  "(\<exists>b sc. globalErrorHandler None ''2026-01-01T00:00:00.000Z''
        (InstanceOfAppError (new_AppError ''trace'' ''Error'' (Some (Num 400)) (Some ''ERROR'')))
        \<lparr> requestId = Some ''req-123'',
          headers = [''x-request-id'' \<mapsto> HeaderString ''header-123''] \<rparr> [] =
        [Status sc, Json b]
      \<and> BaseResponse.meta b ''requestId'' = Some (JString ''req-123''))
   \<and> (\<exists>b sc. globalErrorHandler None ''2026-01-01T00:00:00.000Z''
        (InstanceOfAppError (new_AppError ''trace'' ''Error'' (Some (Num 400)) (Some ''ERROR'')))
        \<lparr> requestId = None, headers = Map.empty \<rparr> [] = [Status sc, Json b]
      \<and> BaseResponse.meta b ''requestId'' = None)"
proof (rule conjI)
  show "\<exists>b sc. globalErrorHandler None ''2026-01-01T00:00:00.000Z''
        (InstanceOfAppError (new_AppError ''trace'' ''Error'' (Some (Num 400)) (Some ''ERROR'')))
        \<lparr> requestId = Some ''req-123'',
          headers = [''x-request-id'' \<mapsto> HeaderString ''header-123''] \<rparr> [] =
        [Status sc, Json b]
      \<and> BaseResponse.meta b ''requestId'' = Some (JString ''req-123'')"
    using requestId_precedence [of None "''2026-01-01T00:00:00.000Z''"
        "InstanceOfAppError (new_AppError ''trace'' ''Error'' (Some (Num 400)) (Some ''ERROR''))"
        "\<lparr> requestId = Some ''req-123'',
           headers = [''x-request-id'' \<mapsto> HeaderString ''header-123''] \<rparr>" "[]"]
    by simp
  show "\<exists>b sc. globalErrorHandler None ''2026-01-01T00:00:00.000Z''
        (InstanceOfAppError (new_AppError ''trace'' ''Error'' (Some (Num 400)) (Some ''ERROR'')))
        \<lparr> requestId = None, headers = Map.empty \<rparr> [] = [Status sc, Json b]
      \<and> BaseResponse.meta b ''requestId'' = None"
    using requestId_precedence [of None "''2026-01-01T00:00:00.000Z''"
        "InstanceOfAppError (new_AppError ''trace'' ''Error'' (Some (Num 400)) (Some ''ERROR''))"
        "\<lparr> requestId = None, headers = Map.empty \<rparr>" "[]"]
    by simp
qed

text \<open>
  Claim C5 as stated fails for a request whose \<^verbatim>\<open>requestId\<close> is present and empty and whose
  headers have \<^verbatim>\<open>x-request-id: header-123\<close>: both are present, and the envelope's meta has
  the header's value under \<^verbatim>\<open>requestId\<close>, not the request's.
\<close>

theorem requestId_precedence_counterexample:
  "sent_status (globalErrorHandler None ''2026-01-01T00:00:00.000Z''
      (InstanceOfAppError (new_AppError ''trace'' ''Error'' (Some (Num 400)) (Some ''ERROR'')))
      \<lparr> requestId = Some [],
        headers = [''x-request-id'' \<mapsto> HeaderString ''header-123''] \<rparr> []) = Some (Num 400)
   \<and> sent_meta (globalErrorHandler None ''2026-01-01T00:00:00.000Z''
      (InstanceOfAppError (new_AppError ''trace'' ''Error'' (Some (Num 400)) (Some ''ERROR'')))
      \<lparr> requestId = Some [],
        headers = [''x-request-id'' \<mapsto> HeaderString ''header-123''] \<rparr> []) ''requestId'' =
     Some (JString ''header-123'')"
  by (simp add: handler_appError_sends sent_meta_def generateMeta_def handler_meta_def
      handler_requestId_def new_AppError_def)

text \<open>
  Claim C9, as amended. When the request's \<^verbatim>\<open>requestId\<close> is falsy (missing, or present and
  empty), the handler does not use it and turns to the \<^verbatim>\<open>x-request-id\<close> header: the
  envelope's meta has the header's value under \<^verbatim>\<open>requestId\<close> when that value is a single
  non-empty string, and has no such key when the header is an empty string, an array or
  missing.
\<close>

theorem falsy_requestId_falls_through:
  assumes "\<not> truthy_string (requestId req)"
  shows "\<exists>b sc. globalErrorHandler NODE_ENV now err req res = res @ [Status sc, Json b]
      \<and> (\<forall>h. headers req ''x-request-id'' = Some (HeaderString h) \<and> h \<noteq> [] \<longrightarrow>
             BaseResponse.meta b ''requestId'' = Some (JString h))
      \<and> (headers req ''x-request-id'' = Some (HeaderString []) \<longrightarrow>
             BaseResponse.meta b ''requestId'' = None)
      \<and> (\<forall>hs. headers req ''x-request-id'' = Some (HeaderArray hs) \<longrightarrow>
             BaseResponse.meta b ''requestId'' = None)
      \<and> (headers req ''x-request-id'' = None \<longrightarrow> BaseResponse.meta b ''requestId'' = None)"
proof -
  obtain b sc where s: "globalErrorHandler NODE_ENV now err req res = res @ [Status sc, Json b]"
    and m: "BaseResponse.meta b = generateMeta now (Some (handler_meta req))"
    using handler_sends_meta by blast
  have r: "BaseResponse.meta b ''requestId'' =
      (case headers req ''x-request-id'' of
         Some (HeaderString h) \<Rightarrow> if h \<noteq> [] then Some (JString h) else None
       | Some (HeaderArray hs) \<Rightarrow> None
       | None \<Rightarrow> None)"
    using assms
    by (simp add: m generateMeta_requestId handler_meta_requestId handler_requestId_def
        split: option.splits header_value.splits)
  show ?thesis
    by (rule exI [of _ b], rule exI [of _ sc]) (simp add: s r)
qed

theorem falsy_requestId_falls_through_witness:
  "\<not> truthy_string (requestId \<lparr> requestId = Some [],
        headers = [''x-request-id'' \<mapsto> HeaderString ''header-123''] \<rparr>)
   \<and> (\<exists>b sc. globalErrorHandler None ''2026-01-01T00:00:00.000Z''
        (InstanceOfAppError (new_AppError ''trace'' ''Error'' (Some (Num 400)) (Some ''ERROR'')))
        \<lparr> requestId = Some [],
          headers = [''x-request-id'' \<mapsto> HeaderString ''header-123''] \<rparr> [] =
        [Status sc, Json b]
      \<and> BaseResponse.meta b ''requestId'' = Some (JString ''header-123''))"
  using falsy_requestId_falls_through [of "\<lparr> requestId = Some [],
        headers = [''x-request-id'' \<mapsto> HeaderString ''header-123''] \<rparr>" None
      "''2026-01-01T00:00:00.000Z''"
      "InstanceOfAppError (new_AppError ''trace'' ''Error'' (Some (Num 400)) (Some ''ERROR''))" "[]"]
  by simp

text \<open>
  Claim C9 as stated fails for a request whose \<^verbatim>\<open>requestId\<close> is empty and whose
  \<^verbatim>\<open>x-request-id\<close> header is the empty string: the header is a single string, and the
  envelope's meta has no \<^verbatim>\<open>requestId\<close> key, since \<^verbatim>\<open>requestId ? { requestId } : {}\<close> tests
  the extracted value once more.
\<close>

theorem falsy_requestId_counterexample:
  "sent_status (globalErrorHandler None ''2026-01-01T00:00:00.000Z''
      (InstanceOfAppError (new_AppError ''trace'' ''Error'' (Some (Num 400)) (Some ''ERROR'')))
      \<lparr> requestId = Some [], headers = [''x-request-id'' \<mapsto> HeaderString []] \<rparr> []) =
     Some (Num 400)
   \<and> sent_meta (globalErrorHandler None ''2026-01-01T00:00:00.000Z''
      (InstanceOfAppError (new_AppError ''trace'' ''Error'' (Some (Num 400)) (Some ''ERROR'')))
      \<lparr> requestId = Some [], headers = [''x-request-id'' \<mapsto> HeaderString []] \<rparr> [])
      ''requestId'' = None"
  by (simp add: handler_appError_sends sent_meta_def generateMeta_def handler_meta_def
      handler_requestId_def new_AppError_def)

section \<open>The builders\<close>

text \<open>
  Claim C6, as amended. For natural numbers \<open>p\<close>, \<open>l\<close>, \<open>t\<close> given as \<^verbatim>\<open>page\<close>, \<^verbatim>\<open>limit\<close> and
  \<^verbatim>\<open>total\<close>, with \<open>l > 0\<close> finite (below \<open>2^1024\<close>) and \<open>t\<close> below \<open>2^53\<close>, the pagination
  block that \<^verbatim>\<open>paginated\<close> sends has \<^verbatim>\<open>totalPages\<close> equal to the ceiling \<open>k\<close> of \<open>t / l\<close> (the
  integer with \<open>(k - 1) * l < t \<le> k * l\<close>), \<^verbatim>\<open>hasNextPage\<close> equal to \<open>p < k\<close> and \<^verbatim>\<open>hasPrevPage\<close>
  equal to \<open>p > 1\<close>. For \<open>t = 0\<close> this gives \<^verbatim>\<open>totalPages\<close> 0 and \<^verbatim>\<open>hasNextPage\<close> false, with
  \<^verbatim>\<open>hasPrevPage\<close> still \<open>p > 1\<close>.
\<close>

theorem paginated_pagination_block:
  assumes "0 < l" and "l < 2 ^ 1024" and "t < 2 ^ 53"
  shows "\<exists>b. paginated now res dat
              \<lparr> page = Num (of_nat p), limit = Num (of_nat l), total = Num (of_nat t) \<rparr> msg =
            res @ [Status (Num 200), Json b]
        \<and> totalPages (pagination b) = Num (of_int \<lceil>rat_of_nat t / rat_of_nat l\<rceil>)
        \<and> int t \<le> \<lceil>rat_of_nat t / rat_of_nat l\<rceil> * int l
        \<and> (\<lceil>rat_of_nat t / rat_of_nat l\<rceil> - 1) * int l < int t
        \<and> hasNextPage (pagination b) = (int p < \<lceil>rat_of_nat t / rat_of_nat l\<rceil>)
        \<and> hasPrevPage (pagination b) = (1 < p)
        \<and> (t = 0 \<longrightarrow> totalPages (pagination b) = Num 0 \<and> \<not> hasNextPage (pagination b))"
proof -
  have cmp: "(rat_of_nat p < rat_of_int k) = (int p < k)" for k
    by (metis of_int_less_iff of_int_of_nat_eq)
  obtain y where y: "binary64 (rat_of_nat t / rat_of_nat l) = Num y"
    and c: "\<lceil>y\<rceil> = \<lceil>rat_of_nat t / rat_of_nat l\<rceil>"
    using binary64_ceiling [OF assms] by blast
  have z: "binary64 0 = Num 0" by (simp add: binary64_def)
  from assms(1) show ?thesis
    by (simp add: paginated_sends js_greater_def y z c cmp ceiling_pages)
qed

text \<open>The test \<^verbatim>\<open>should calculate pagination correctly\<close>: page 2 of 95 items, ten a page.\<close>

theorem paginated_pagination_block_witness:
  "(0::nat) < 10 \<and> (10::nat) < 2 ^ 1024 \<and> (95::nat) < 2 ^ 53 \<and>
   (\<exists>b. paginated ''2026-01-01T00:00:00.000Z'' [] []
          \<lparr> page = Num (of_nat 2), limit = Num (of_nat 10), total = Num (of_nat 95) \<rparr> None =
          [Status (Num 200), Json b]
      \<and> totalPages (pagination b) = Num 10
      \<and> hasNextPage (pagination b) = True
      \<and> hasPrevPage (pagination b) = True)"
proof -
  have c: "\<lceil>(19::rat) / 2\<rceil> = 10" by code_simp
  have h1: "(0::nat) < 10" and h2: "(10::nat) < 2 ^ 1024" and h3: "(95::nat) < 2 ^ 53"
    by simp_all
  have "\<exists>b. paginated ''2026-01-01T00:00:00.000Z'' [] []
          \<lparr> page = Num (of_nat 2), limit = Num (of_nat 10), total = Num (of_nat 95) \<rparr> None =
          [Status (Num 200), Json b]
      \<and> totalPages (pagination b) = Num 10
      \<and> hasNextPage (pagination b) = True
      \<and> hasPrevPage (pagination b) = True"
    using paginated_pagination_block [OF h1 h2 h3, of "''2026-01-01T00:00:00.000Z''" "[]" "[]" 2 None]
    by (simp add: c)
  then show ?thesis using h1 h2 h3 by blast
qed

text \<open>
  Claim C6 as stated fails for some totals of \<open>2^53\<close> and more, where the quotient is rounded
  before \<^verbatim>\<open>Math.ceil\<close> sees it. With three items a page, \<open>2^60\<close> items fill
  384307168202282326 pages and 13510798882111492 items fill 4503599627370498 pages; the
  quotients round to the integers 384307168202282304 and 4503599627370497, and these are
  the \<^verbatim>\<open>totalPages\<close> sent.
\<close>

theorem paginated_pagination_block_counterexample:
  "map_option (totalPages \<circ> pagination)
     (sent_body (paginated ''2026-01-01T00:00:00.000Z'' [] []
        \<lparr> page = Num 1, limit = Num 3, total = Num 1152921504606846976 \<rparr> None)) =
     Some (Num 384307168202282304)
   \<and> \<lceil>(1152921504606846976::rat) / 3\<rceil> = 384307168202282326
   \<and> map_option (totalPages \<circ> pagination)
     (sent_body (paginated ''2026-01-01T00:00:00.000Z'' [] []
        \<lparr> page = Num 1, limit = Num 3, total = Num 13510798882111492 \<rparr> None)) =
     Some (Num 4503599627370497)
   \<and> \<lceil>(13510798882111492::rat) / 3\<rceil> = 4503599627370498"
proof -
  have r1: "binary64 (1152921504606846976 / 3) = Num 384307168202282304" by code_simp
  have r2: "binary64 (13510798882111492 / 3) = Num 4503599627370497" by code_simp
  have c1: "\<lceil>(1152921504606846976::rat) / 3\<rceil> = 384307168202282326" by code_simp
  have c2: "\<lceil>(13510798882111492::rat) / 3\<rceil> = 4503599627370498" by code_simp
  show ?thesis
    by (simp add: paginated_sends r1 r2 c1 c2)
qed

text \<open>
  Claim C7. For every list of validation items, the empty one included,
  \<^verbatim>\<open>validationError\<close> sets the sink's status to 422 and then sends one envelope with
  \<^verbatim>\<open>success\<close> false, \<^verbatim>\<open>statusCode\<close> 422, the message \<^verbatim>\<open>Validation failed\<close> and the given list as
  \<^verbatim>\<open>errors\<close>. The first three are constants: no argument reaches them.
\<close>

theorem validationError_envelope:
  "\<exists>b. validationError now res errs = res @ [Status (Num 422), Json b]
      \<and> BaseResponse.success b = False
      \<and> BaseResponse.statusCode b = Num 422
      \<and> BaseResponse.message b = ''Validation failed''
      \<and> ValidationErrorResponse.errors b = errs"
  by (simp add: validationError_sends)

text \<open>The second scenario of the specification: no validation items.\<close>

theorem validationError_envelope_witness:
  "\<exists>b. validationError ''2026-01-01T00:00:00.000Z'' [] [] = [Status (Num 422), Json b]
      \<and> BaseResponse.success b = False
      \<and> BaseResponse.statusCode b = Num 422
      \<and> BaseResponse.message b = ''Validation failed''
      \<and> ValidationErrorResponse.errors b = []"
  using validationError_envelope [of "''2026-01-01T00:00:00.000Z''" "[]" "[]"] by simp

text \<open>
  Claim C8. For every object \<open>extra\<close> given to \<^verbatim>\<open>generateMeta\<close>, the result has the key
  \<^verbatim>\<open>timestamp\<close> and every entry of \<open>extra\<close>, and no other key. The entries of \<open>extra\<close> are laid
  over the generated timestamp: a \<^verbatim>\<open>timestamp\<close> entry of \<open>extra\<close> is the result's, and when
  \<open>extra\<close> has none, the result's \<^verbatim>\<open>timestamp\<close> is the clock reading. Without an argument
  the result is the timestamp alone.
\<close>

theorem generateMeta_overlay:
  "''timestamp'' \<in> dom (generateMeta now (Some extra))
   \<and> (\<forall>k v. extra k = Some v \<longrightarrow> generateMeta now (Some extra) k = Some v)
   \<and> (extra ''timestamp'' = None \<longrightarrow>
        generateMeta now (Some extra) ''timestamp'' = Some (JString now))
   \<and> dom (generateMeta now (Some extra)) = insert ''timestamp'' (dom extra)
   \<and> generateMeta now None = [''timestamp'' \<mapsto> JString now]"
  by (auto simp: generateMeta_def map_add_def dom_def split: option.splits)

text \<open>
  The test that passes its own \<^verbatim>\<open>timestamp\<close>, and the test that passes a \<^verbatim>\<open>requestId\<close>.
\<close>

theorem generateMeta_overlay_witness:
  "generateMeta ''2026-01-01T00:00:00.000Z''
      (Some [''timestamp'' \<mapsto> JString ''2020-01-01T00:00:00.000Z'']) ''timestamp'' =
     Some (JString ''2020-01-01T00:00:00.000Z'')
   \<and> [''requestId'' \<mapsto> JString ''abc-123''] ''timestamp'' = None
   \<and> generateMeta ''2026-01-01T00:00:00.000Z''
      (Some [''requestId'' \<mapsto> JString ''abc-123'']) ''timestamp'' =
     Some (JString ''2026-01-01T00:00:00.000Z'')
   \<and> generateMeta ''2026-01-01T00:00:00.000Z''
      (Some [''requestId'' \<mapsto> JString ''abc-123'']) ''requestId'' = Some (JString ''abc-123'')"
  using generateMeta_overlay [of "''2026-01-01T00:00:00.000Z''"
        "[''timestamp'' \<mapsto> JString ''2020-01-01T00:00:00.000Z'']"]
    generateMeta_overlay [of "''2026-01-01T00:00:00.000Z''" "[''requestId'' \<mapsto> JString ''abc-123'']"]
  by simp

end
